theory Spec2Isabelle
  imports Complex_Main "HOL-Library.Word"
begin

section \<open>JavaScript values\<close>

text \<open>
  A JavaScript string is a sequence of UTF-16 code units. Literals of the source are
  ASCII and are written \<open>js ''...''\<close>.
\<close>

type_synonym jsstring = "16 word list"

definition js :: "string \<Rightarrow> jsstring" where
  "js s = map of_char s"

text \<open>
  Numbers: a finite double is represented by the rational it denotes (\<open>0\<close> and \<open>-0\<close>
  coincide; both are falsy), the two infinities are values of their own. \<open>JSON.parse\<close>
  never yields \<open>NaN\<close>, and the handler computes none.
\<close>

datatype jsnum = Num rat | Infinity | NegInfinity

text \<open>
  The values \<open>JSON.parse\<close> returns and \<open>JSON.stringify\<close> receives. An object is the
  association list of its own properties (\<open>map_of\<close> reads a property); \<open>undefined\<close> is the
  \<open>None\<close> of a property read.
\<close>

datatype json =
    JNull
  | JBool bool
  | JNum jsnum
  | JStr jsstring
  | JArr "json list"
  | JObj "(jsstring \<times> json) list"

text \<open>A thrown value: an \<open>Error\<close> object with its \<open>message\<close>.\<close>

datatype exn = Error (message: jsstring)

fun truthy :: "json \<Rightarrow> bool" where
  "truthy JNull = False"
| "truthy (JBool b) = b"
| "truthy (JNum (Num q)) = (q \<noteq> 0)"
| "truthy (JNum Infinity) = True"
| "truthy (JNum NegInfinity) = True"
| "truthy (JStr s) = (s \<noteq> [])"
| "truthy (JArr xs) = True"
| "truthy (JObj kv) = True"

text \<open>\<open>a || d\<close> where \<open>a\<close> is a property read (possibly \<open>undefined\<close>).\<close>

definition or_else :: "json option \<Rightarrow> json \<Rightarrow> json" where
  "or_else a d = (case a of None \<Rightarrow> d | Some v \<Rightarrow> if truthy v then v else d)"

text \<open>
  \<open>v.name\<close> for a name that no prototype defines (\<open>text\<close>, \<open>language\<close>, \<open>duration\<close>,
  \<open>test\<close>): a \<open>TypeError\<close> on \<open>null\<close>, the own property of an object, \<open>undefined\<close> on
  every other value.
\<close>

fun get_prop :: "json \<Rightarrow> jsstring \<Rightarrow> exn + json option" where
  "get_prop JNull k =
     Inl (Error (js ''Cannot read properties of null (reading '' @ [0x27] @ k @ [0x27] @ js '')''))"
| "get_prop (JObj kv) k = Inr (map_of kv k)"
| "get_prop v k = Inr None"

text \<open>
  \<open>v[0]\<close> on a truthy value: the first code unit of a string, the first element of an
  array, the property \<open>"0"\<close> of an object, \<open>undefined\<close> on numbers and booleans. (The
  source reads \<open>v[0]\<close> only behind \<open>v &&\<close>, so never on \<open>null\<close>.)
\<close>

fun index0 :: "json \<Rightarrow> json option" where
  "index0 (JStr s) = (case s of [] \<Rightarrow> None | c # _ \<Rightarrow> Some (JStr [c]))"
| "index0 (JArr xs) = (case xs of [] \<Rightarrow> None | x # _ \<Rightarrow> Some x)"
| "index0 (JObj kv) = map_of kv (js ''0'')"
| "index0 v = None"

text \<open>\<open>a && a[0]\<close> on a possibly undefined \<open>a\<close>: the falsy \<open>a\<close> itself, else \<open>a[0]\<close>.\<close>

definition and_index0 :: "json option \<Rightarrow> json option" where
  "and_index0 a = (case a of None \<Rightarrow> None | Some v \<Rightarrow> if truthy v then index0 v else Some v)"

subsection \<open>Strings\<close>

text \<open>\<open>s.includes(p)\<close>: \<open>p\<close> occurs in \<open>s\<close> as a contiguous run of code units.\<close>

fun str_includes :: "jsstring \<Rightarrow> jsstring \<Rightarrow> bool" where
  "str_includes [] p = (p = [])"
| "str_includes (c # cs) p = (take (length p) (c # cs) = p \<or> str_includes cs p)"

text \<open>The code units \<open>String.prototype.trim\<close> strips: WhiteSpace and LineTerminator.\<close>

definition is_whitespace :: "16 word \<Rightarrow> bool" where
  "is_whitespace c \<longleftrightarrow>
     c = 0x0009 \<or> c = 0x000A \<or> c = 0x000B \<or> c = 0x000C \<or> c = 0x000D \<or> c = 0x0020 \<or>
     c = 0x00A0 \<or> c = 0x1680 \<or> (0x2000 \<le> c \<and> c \<le> 0x200A) \<or> c = 0x2028 \<or> c = 0x2029 \<or>
     c = 0x202F \<or> c = 0x205F \<or> c = 0x3000 \<or> c = 0xFEFF"

definition trim :: "jsstring \<Rightarrow> jsstring" where
  "trim s = rev (dropWhile is_whitespace (rev (dropWhile is_whitespace s)))"

text \<open>The character class of the source's regular expression: U+0980 to U+09FF.\<close>

definition is_bengali :: "16 word \<Rightarrow> bool" where
  "is_bengali c \<longleftrightarrow> 0x0980 \<le> c \<and> c \<le> 0x09FF"

text \<open>
  The regular expression's \<open>test(v)\<close> converts its argument to a string first: a
  string is itself; an array is its elements' conversions joined by commas; \<open>null\<close>,
  booleans and numbers convert to ASCII text; an object converts to
  \<open>[object Object]\<close>, unless it has an own property \<open>toString\<close>, which in a parsed
  JSON value is never callable, and then the conversion throws a \<open>TypeError\<close>.
\<close>

fun toString_throws :: "json \<Rightarrow> bool" where
  "toString_throws (JObj kv) = (map_of kv (js ''toString'') \<noteq> None)"
| "toString_throws (JArr xs) = list_ex toString_throws xs"
| "toString_throws v = False"

text \<open>
  When the conversion succeeds, the test finds a code unit of the class exactly in a
  string, or in an array one of whose elements has one.
\<close>

fun regex_test :: "json \<Rightarrow> bool" where
  "regex_test (JStr s) = list_ex is_bengali s"
| "regex_test (JArr xs) = list_ex regex_test xs"
| "regex_test v = False"

text \<open>
  \<open>encodeURIComponent(s)\<close> throws a \<open>URIError\<close> exactly when \<open>s\<close> has a lone surrogate.
\<close>

definition is_high_surrogate :: "16 word \<Rightarrow> bool" where
  "is_high_surrogate c \<longleftrightarrow> 0xD800 \<le> c \<and> c \<le> 0xDBFF"

definition is_low_surrogate :: "16 word \<Rightarrow> bool" where
  "is_low_surrogate c \<longleftrightarrow> 0xDC00 \<le> c \<and> c \<le> 0xDFFF"

fun encodeURIComponent_throws :: "jsstring \<Rightarrow> bool" where
  "encodeURIComponent_throws [] = False"
| "encodeURIComponent_throws [c] = (is_low_surrogate c \<or> is_high_surrogate c)"
| "encodeURIComponent_throws (c # d # ds) =
     (if is_low_surrogate c then True
      else if is_high_surrogate c then
        (if is_low_surrogate d then encodeURIComponent_throws ds else True)
      else encodeURIComponent_throws (d # ds))"

subsection \<open>Numbers to text\<close>

text \<open>
  \<open>Math.round\<close>: the nearest integer, a tie going up. The handler rounds a byte
  count divided by \<open>1024 * 1024\<close>: an integer divided by a power of two, which double
  arithmetic computes exactly, so the rational is the value the code rounds.
\<close>

definition Math_round :: "rat \<Rightarrow> int" where
  "Math_round x = \<lfloor>x + 1 / 2\<rfloor>"

fun decimal :: "nat \<Rightarrow> jsstring" where
  "decimal n =
     (if n < 10 then [of_nat (48 + n)]
      else decimal (n div 10) @ [of_nat (48 + n mod 10)])"

declare decimal.simps [simp del]

text \<open>An integer inside a template literal.\<close>

definition int_to_string :: "int \<Rightarrow> jsstring" where
  "int_to_string i = (if i < 0 then 0x2D # decimal (nat (- i)) else decimal (nat i))"

section \<open>The request, the response and the outside world\<close>

record event =
  httpMethod :: jsstring
  req_headers :: "jsstring \<Rightarrow> jsstring option"
  req_body :: "jsstring option"

text \<open>
  The response body is a string. It is either given as such (\<open>Text\<close>), or it is a JSON
  text, kept as the value that the text denotes (\<open>Json\<close>).
\<close>

datatype resp_body = Text jsstring | Json json

text \<open>
  \<open>JSON.stringify(v)\<close> for a value built from parsed JSON and literals: the text
  denotes \<open>v\<close> itself, except that a number that is not finite is written \<open>null\<close>,
  also inside arrays and objects. (Such a value has no \<open>undefined\<close> property, no
  function and no \<open>toJSON\<close> method, the other things the serialiser treats specially.)
\<close>

fun serialise :: "json \<Rightarrow> json" where
  "serialise (JNum Infinity) = JNull"
| "serialise (JNum NegInfinity) = JNull"
| "serialise (JArr xs) = JArr (map serialise xs)"
| "serialise (JObj kv) = JObj (map (map_prod id serialise) kv)"
| "serialise v = v"

definition JSON_stringify :: "json \<Rightarrow> resp_body" where
  "JSON_stringify v = Json (serialise v)"

text \<open>The values that the serialiser leaves as they are.\<close>

fun finite_json :: "json \<Rightarrow> bool" where
  "finite_json (JNum Infinity) = False"
| "finite_json (JNum NegInfinity) = False"
| "finite_json (JArr xs) = list_all finite_json xs"
| "finite_json (JObj kv) = list_all (\<lambda>p. finite_json (snd p)) kv"
| "finite_json v = True"

record response =
  statusCode :: nat
  headers :: "(jsstring \<times> jsstring) list"
  body :: resp_body

text \<open>What \<open>fetch\<close> resolves to: its status, and what reading the body yields.\<close>

record fetch_response =
  status :: nat
  text_of :: "exn + jsstring"
  json_of :: "exn + json"

definition ok :: "fetch_response \<Rightarrow> bool" where
  "ok r \<longleftrightarrow> 200 \<le> status r \<and> status r < 300"

datatype fetch_outcome = FetchThrows exn | FetchResponse fetch_response

text \<open>
  Everything the handler reads from outside itself: the environment variable, the
  runtime's \<open>JSON.parse\<close> (\<open>None\<close>: it throws) and base64 decoder, the clock, and the two
  services. The transcription request is fixed by the credential and the audio bytes,
  the translation request by the text.
\<close>

record world =
  OPENAI_API_KEY :: "jsstring option"
  JSON_parse :: "jsstring \<Rightarrow> json option"
  base64_decode :: "jsstring \<Rightarrow> 8 word list"
  Date_now :: nat
  fetch_transcriptions :: "jsstring \<Rightarrow> 8 word list \<Rightarrow> fetch_outcome"
  fetch_translate :: "jsstring \<Rightarrow> fetch_outcome"

text \<open>The external calls a run makes, in order.\<close>

datatype call = Whisper jsstring "8 word list" | Translate jsstring

section \<open>The handler\<close>

definition cors_headers :: "(jsstring \<times> jsstring) list" where
  "cors_headers =
     [(js ''Access-Control-Allow-Origin'', js ''*''),
      (js ''Access-Control-Allow-Headers'', js ''Content-Type, Authorization''),
      (js ''Access-Control-Allow-Methods'', js ''POST, OPTIONS''),
      (js ''Content-Type'', js ''application/json'')]"

definition respond :: "nat \<Rightarrow> resp_body \<Rightarrow> response" where
  "respond code b = \<lparr>statusCode = code, headers = cors_headers, body = b\<rparr>"

definition num :: "nat \<Rightarrow> json" where
  "num n = JNum (Num (of_nat n))"

subsection \<open>translateToBengali\<close>

text \<open>
  \<open>data && data[0] && data[0][0] && data[0][0][0]\<close>, as the value the condition has.
\<close>

definition first_segment :: "json \<Rightarrow> json option" where
  "first_segment data = and_index0 (and_index0 (and_index0 (Some data)))"

text \<open>
  The helper returns the translated value, or \<open>null\<close> (\<open>None\<close>). Its body is one
  \<open>try\<close>: a \<open>URIError\<close> of the encoding, a rejected \<open>fetch\<close>, the \<open>Error\<close> it throws
  itself on a non-success status and a body that is not JSON all end in \<open>return null\<close>.
\<close>

definition translateToBengali :: "world \<Rightarrow> jsstring \<Rightarrow> json option \<times> call list" where
  "translateToBengali w text =
     (if encodeURIComponent_throws text then (None, [])
      else
        (case fetch_translate w text of
           FetchThrows error \<Rightarrow> (None, [Translate text])
         | FetchResponse response \<Rightarrow>
             if \<not> ok response then (None, [Translate text])
             else
               (case json_of response of
                  Inl error \<Rightarrow> (None, [Translate text])
                | Inr data \<Rightarrow>
                    (case first_segment data of
                       None \<Rightarrow> (None, [Translate text])
                     | Some translatedText \<Rightarrow>
                         if truthy translatedText then (Some translatedText, [Translate text])
                         else (None, [Translate text])))))"

subsection \<open>exports.handler\<close>

text \<open>
  The probe block: \<open>event.body\<close> is truthy, \<open>JSON.parse\<close> succeeds and
  \<open>bodyData.test === true\<close>; anything thrown inside is caught and ignored.
\<close>

definition is_test_request :: "world \<Rightarrow> event \<Rightarrow> bool" where
  "is_test_request w ev =
     (case req_body ev of
        None \<Rightarrow> False
      | Some b \<Rightarrow>
          if b = [] then False
          else
            (case JSON_parse w b of
               None \<Rightarrow> False
             | Some bodyData \<Rightarrow>
                 (case get_prop bodyData (js ''test'') of
                    Inl parseError \<Rightarrow> False
                  | Inr t \<Rightarrow> t = Some (JBool True))))"

text \<open>\<open>event.headers['content-type'] || event.headers['Content-Type']\<close>\<close>

definition contentType :: "event \<Rightarrow> jsstring option" where
  "contentType ev =
     (case req_headers ev (js ''content-type'') of
        None \<Rightarrow> req_headers ev (js ''Content-Type'')
      | Some v \<Rightarrow> if v = [] then req_headers ev (js ''Content-Type'') else Some v)"

text \<open>
  \<open>Buffer.from(event.body, 'base64')\<close>: a \<open>TypeError\<close> on \<open>null\<close>, else the decoded
  bytes.
\<close>

definition Buffer_from :: "world \<Rightarrow> jsstring option \<Rightarrow> exn + 8 word list" where
  "Buffer_from w b =
     (case b of
        None \<Rightarrow>
          Inl (Error (js ''The first argument must be of type string or an instance of Buffer, ArrayBuffer, or Array or an Array-like Object. Received null''))
      | Some s \<Rightarrow> Inr (base64_decode w s))"

text \<open>
  The regular expression's test, then \<open>!isBengali && bengaliText.trim()\<close>: the text
  to translate when the condition holds. Only a string has \<open>trim\<close>; \<open>bengaliText\<close>
  is never \<open>null\<close> here.
\<close>

definition text_to_translate :: "json \<Rightarrow> exn + jsstring option" where
  "text_to_translate bengaliText =
     (if toString_throws bengaliText then
        Inl (Error (js ''Cannot convert object to primitive value''))
      else if regex_test bengaliText then Inr None
      else
        (case bengaliText of
           JStr s \<Rightarrow> Inr (if trim s \<noteq> [] then Some s else None)
         | _ \<Rightarrow> Inl (Error (js ''bengaliText.trim is not a function''))))"

definition success_response :: "world \<Rightarrow> json \<Rightarrow> json \<Rightarrow> json option \<Rightarrow> json option \<Rightarrow> response" where
  "success_response w originalText bengaliText language duration =
     respond 200 (JSON_stringify (JObj
       [(js ''success'', JBool True),
        (js ''original'', originalText),
        (js ''bengali'', bengaliText),
        (js ''language_detected'', or_else language (JStr (js ''unknown''))),
        (js ''confidence'', JNum (Num (95 / 100))),
        (js ''timestamp'', num (Date_now w)),
        (js ''model'', JStr (js ''whisper-1'')),
        (js ''duration'', or_else duration JNull)]))"

text \<open>The handler from \<open>transcriptionResult\<close> on (lines 151 to 186).\<close>

definition after_transcription :: "world \<Rightarrow> json \<Rightarrow> (exn + response) \<times> call list" where
  "after_transcription w transcriptionResult =
     (case get_prop transcriptionResult (js ''text'') of
        Inl error \<Rightarrow> (Inl error, [])
      | Inr t \<Rightarrow>
          (let bengaliText = or_else t (JStr []);
               originalText = bengaliText
           in
             (case text_to_translate bengaliText of
                Inl error \<Rightarrow> (Inl error, [])
              | Inr todo \<Rightarrow>
                  (let (translatedText, calls) =
                         (case todo of
                            None \<Rightarrow> (None, [])
                          | Some s \<Rightarrow> translateToBengali w s);
                       bengaliText' =
                         (case translatedText of None \<Rightarrow> bengaliText | Some v \<Rightarrow> v)
                   in
                     (case get_prop transcriptionResult (js ''language'') of
                        Inl error \<Rightarrow> (Inl error, calls)
                      | Inr language \<Rightarrow>
                          (case get_prop transcriptionResult (js ''duration'') of
                             Inl error \<Rightarrow> (Inl error, calls)
                           | Inr duration \<Rightarrow>
                               (Inr (success_response w originalText bengaliText'
                                       language duration), calls)))))))"

definition upstream_error_response :: "nat \<Rightarrow> jsstring \<Rightarrow> response" where
  "upstream_error_response st errorText =
     (let errorMessage =
            (if st = 401 then js ''Invalid OpenAI API key. Please check your key.''
             else if st = 429 then js ''OpenAI API rate limit exceeded. Please try again later.''
             else if st = 413 then js ''Audio file too large for OpenAI API.''
             else js ''OpenAI API request failed'')
      in respond st (JSON_stringify (JObj
           [(js ''error'', JStr errorMessage),
            (js ''details'', JStr errorText),
            (js ''status'', num st)])))"

text \<open>The call of the transcription service and what follows it (lines 100 to 186).\<close>

definition transcribe :: "world \<Rightarrow> jsstring \<Rightarrow> 8 word list \<Rightarrow> (exn + response) \<times> call list" where
  "transcribe w key audio =
     (case fetch_transcriptions w key audio of
        FetchThrows error \<Rightarrow> (Inl error, [Whisper key audio])
      | FetchResponse openaiResponse \<Rightarrow>
          if \<not> ok openaiResponse then
            (case text_of openaiResponse of
               Inl error \<Rightarrow> (Inl error, [Whisper key audio])
             | Inr errorText \<Rightarrow>
                 (Inr (upstream_error_response (status openaiResponse) errorText),
                  [Whisper key audio]))
          else
            (case json_of openaiResponse of
               Inl error \<Rightarrow> (Inl error, [Whisper key audio])
             | Inr transcriptionResult \<Rightarrow>
                 (let (r, calls) = after_transcription w transcriptionResult
                  in (r, Whisper key audio # calls))))"

definition max_size :: nat where
  "max_size = 25 * 1024 * 1024"

text \<open>The body of the outer \<open>try\<close>: a response, or the exception that leaves it.\<close>

definition try_block :: "world \<Rightarrow> event \<Rightarrow> (exn + response) \<times> call list" where
  "try_block w ev =
     (let no_key =
            respond 500 (JSON_stringify (JObj
              [(js ''error'', JStr (js ''OpenAI API key not configured'')),
               (js ''setup'', JStr (js ''Add OPENAI_API_KEY to Netlify environment variables'')),
               (js ''help'',
                JStr (js ''Go to Site Settings > Environment Variables in Netlify dashboard''))]));
          bad_type = (\<lambda>received.
            respond 400 (JSON_stringify (JObj
              [(js ''error'',
                JStr (js ''Content-Type must be multipart/form-data for audio uploads'')),
               (js ''received'', JStr received)])))
      in
        (case OPENAI_API_KEY w of
           None \<Rightarrow> (Inr no_key, [])
         | Some key \<Rightarrow>
             if key = [] then (Inr no_key, [])
             else if is_test_request w ev then
               (Inr (respond 200 (JSON_stringify (JObj
                  [(js ''success'', JBool True),
                   (js ''message'', JStr (js ''API connected successfully'')),
                   (js ''timestamp'', num (Date_now w)),
                   (js ''apiKeyPresent'', JBool (key \<noteq> []))]))), [])
             else
               (case contentType ev of
                  None \<Rightarrow> (Inr (bad_type (js ''none'')), [])
                | Some ct \<Rightarrow>
                    if ct = [] then (Inr (bad_type (js ''none'')), [])
                    else if \<not> str_includes ct (js ''multipart/form-data'') then
                      (Inr (bad_type ct), [])
                    else
                      (case Buffer_from w (req_body ev) of
                         Inl error \<Rightarrow> (Inl error, [])
                       | Inr audio \<Rightarrow>
                           if length audio > max_size then
                             (Inr (respond 400 (JSON_stringify (JObj
                                [(js ''error'',
                                  JStr (js ''Audio file too large. Maximum size is 25MB.'')),
                                 (js ''fileSize'',
                                  JStr (int_to_string (Math_round
                                          (of_nat (length audio) / (1024 * 1024)))
                                        @ js ''MB''))]))), [])
                           else transcribe w key audio))))"

definition handler :: "world \<Rightarrow> event \<Rightarrow> response \<times> call list" where
  "handler w ev =
     (if httpMethod ev = js ''OPTIONS'' then (respond 200 (Text []), [])
      else if httpMethod ev \<noteq> js ''POST'' then
        (respond 405 (JSON_stringify (JObj
           [(js ''error'', JStr (js ''Method not allowed. Use POST.''))])), [])
      else
        (case try_block w ev of
           (Inr r, calls) \<Rightarrow> (r, calls)
         | (Inl error, calls) \<Rightarrow>
             (respond 500 (JSON_stringify (JObj
                [(js ''error'', JStr (js ''Internal server error during transcription'')),
                 (js ''message'', JStr (message error)),
                 (js ''timestamp'', num (Date_now w))])), calls)))"

text \<open>Reading a field of a response's JSON body: a field of the value its text denotes.\<close>

definition body_field :: "response \<Rightarrow> string \<Rightarrow> json option" where
  "body_field r k =
     (case body r of
        Json (JObj kv) \<Rightarrow> map_of kv (js k)
      | _ \<Rightarrow> None)"

section \<open>The conditions the claims speak of\<close>

text \<open>
  A \<open>POST\<close> upload that passes the checks before the size check: the credential is
  configured, the body is not the probe, the content type declares multipart form data,
  and the body decodes to \<open>audio\<close>.
\<close>

definition valid_upload :: "world \<Rightarrow> event \<Rightarrow> jsstring \<Rightarrow> 8 word list \<Rightarrow> bool" where
  "valid_upload w ev key audio \<longleftrightarrow>
     httpMethod ev = js ''POST'' \<and> OPENAI_API_KEY w = Some key \<and> key \<noteq> [] \<and>
     \<not> is_test_request w ev \<and>
     (case contentType ev of
        None \<Rightarrow> False
      | Some ct \<Rightarrow> str_includes ct (js ''multipart/form-data'')) \<and>
     (case req_body ev of None \<Rightarrow> False | Some b \<Rightarrow> base64_decode w b = audio)"

text \<open>
  A successful transcription: such an upload within the size limit, for which the
  transcription service answers with a success status and a JSON body.
\<close>

definition successful_transcription ::
  "world \<Rightarrow> event \<Rightarrow> jsstring \<Rightarrow> 8 word list \<Rightarrow> json \<Rightarrow> bool" where
  "successful_transcription w ev key audio transcriptionResult \<longleftrightarrow>
     valid_upload w ev key audio \<and> length audio \<le> 25 * 1024 * 1024 \<and>
     (case fetch_transcriptions w key audio of
        FetchThrows e \<Rightarrow> False
      | FetchResponse r \<Rightarrow> ok r \<and> json_of r = Inr transcriptionResult)"

text \<open>The response of the outer \<open>catch\<close>.\<close>

definition internal_error :: "world \<Rightarrow> exn \<Rightarrow> response" where
  "internal_error w e =
     \<lparr>statusCode = 500, headers = cors_headers,
      body = JSON_stringify (JObj
        [(js ''error'', JStr (js ''Internal server error during transcription'')),
         (js ''message'', JStr (message e)),
         (js ''timestamp'', num (Date_now w))])\<rparr>"

text \<open>
  The translation response the spec expects, in its words: a nested array whose first
  element's first element's first element is the translated string.
\<close>

fun spec_expected_shape :: "json \<Rightarrow> bool" where
  "spec_expected_shape (JArr (JArr (JArr (JStr t # segs) # rows) # rest)) = True"
| "spec_expected_shape v = False"

section \<open>Example worlds and requests\<close>

text \<open>The probe body \<open>{"test": true}\<close>.\<close>

definition probe_text :: jsstring where
  "probe_text = js ''{'' @ [0x22] @ js ''test'' @ [0x22] @ js '': true}''"

text \<open>
  A world in which the request body decodes to \<open>audio\<close> and the two services answer
  as given; \<open>JSON.parse\<close> is given on the probe body and rejects the base64 text of
  the example upload.
\<close>

definition example_world ::
  "jsstring option \<Rightarrow> 8 word list \<Rightarrow> fetch_outcome \<Rightarrow> fetch_outcome \<Rightarrow> world" where
  "example_world key audio transcription translation =
     \<lparr>OPENAI_API_KEY = key,
      JSON_parse = (\<lambda>s. if s = probe_text then Some (JObj [(js ''test'', JBool True)]) else None),
      base64_decode = (\<lambda>s. audio),
      Date_now = 1700000000000,
      fetch_transcriptions = (\<lambda>k a. transcription),
      fetch_translate = (\<lambda>t. translation)\<rparr>"

definition upload_event :: event where
  "upload_event =
     \<lparr>httpMethod = js ''POST'',
      req_headers = (\<lambda>h. if h = js ''content-type''
                         then Some (js ''multipart/form-data; boundary=x'') else None),
      req_body = Some (js ''GkXfo59C'')\<rparr>"

definition probe_event :: event where
  "probe_event =
     \<lparr>httpMethod = js ''POST'',
      req_headers = (\<lambda>h. if h = js ''content-type''
                         then Some (js ''application/json'') else None),
      req_body = Some probe_text\<rparr>"

definition json_reply :: "nat \<Rightarrow> json \<Rightarrow> fetch_outcome" where
  "json_reply st v = FetchResponse \<lparr>status = st, text_of = Inr [], json_of = Inr v\<rparr>"

definition text_reply :: "nat \<Rightarrow> jsstring \<Rightarrow> fetch_outcome" where
  "text_reply st t =
     FetchResponse \<lparr>status = st, text_of = Inr t,
       json_of = Inl (Error (js ''invalid json response body''))\<rparr>"

definition sk_test :: jsstring where
  "sk_test = js ''sk-test''"

text \<open>The first bytes of a WebM file.\<close>

definition example_audio :: "8 word list" where
  "example_audio = [0x1A, 0x45, 0xDF, 0xA3]"

text \<open>English text with one Bengali word (U+09A2 U+09BE U+0995 U+09BE) at its end.\<close>

definition mixed_text :: jsstring where
  "mixed_text = js ''see you at '' @ [0x09A2, 0x09BE, 0x0995, 0x09BE]"

definition hello_text :: jsstring where
  "hello_text = js ''Hello world''"

section \<open>Basic facts\<close>

lemma of_char_lt_256: "(of_char c :: nat) < 256"
  by (cases c) simp

lemma unat_of_char_16: "unat (of_char c :: 16 word) = (of_char c :: nat)"
proof -
  have small: "(of_char c :: nat) < 65536"
    using of_char_lt_256 [of c] by linarith
  have "(of_char c :: 16 word) = of_nat (of_char c)"
    by (simp add: of_nat_of_char)
  then have "unat (of_char c :: 16 word) = unat (of_nat (of_char c :: nat) :: 16 word)"
    by simp
  also have "\<dots> = (of_char c :: nat)"
    using small by (simp add: unat_of_nat)
  finally show ?thesis .
qed

lemma js_eq_iff [simp]: "js a = js b \<longleftrightarrow> a = b"
proof -
  have "inj (of_char :: char \<Rightarrow> 16 word)"
  proof (rule injI)
    fix x y :: char
    assume "(of_char x :: 16 word) = of_char y"
    then have "unat (of_char x :: 16 word) = unat (of_char y :: 16 word)" by simp
    then show "x = y" by (simp add: unat_of_char_16)
  qed
  then show ?thesis
    by (simp add: js_def)
qed

lemma js_Nil_iff [simp]: "js a = [] \<longleftrightarrow> a = []" "[] = js a \<longleftrightarrow> a = []"
  by (auto simp: js_def)

lemma Math_round_MiB:
  "Math_round (of_nat n / (1024 * 1024)) = int ((n + 524288) div 1048576)"
proof -
  have "(of_nat n / (1024 * 1024) + 1 / 2 :: rat) = of_nat (n + 524288) / of_nat 1048576"
    by (simp add: field_simps)
  then have "Math_round (of_nat n / (1024 * 1024)) =
      \<lfloor>(of_nat (n + 524288) / of_nat 1048576 :: rat)\<rfloor>"
    by (simp only: Math_round_def)
  also have "\<dots> = int ((n + 524288) div 1048576)"
    by (simp only: floor_divide_of_nat_eq)
  finally show ?thesis .
qed

section \<open>The handler, path by path\<close>

lemma handler_POST:
  "httpMethod ev = js ''POST'' \<Longrightarrow>
   handler w ev =
     (case try_block w ev of
        (Inr r, calls) \<Rightarrow> (r, calls)
      | (Inl error, calls) \<Rightarrow> (internal_error w error, calls))"
  by (simp add: handler_def internal_error_def respond_def split: prod.splits sum.splits)

lemma try_block_upload:
  assumes "valid_upload w ev key audio"
  shows "try_block w ev =
     (if length audio > max_size then
        (Inr (respond 400 (JSON_stringify (JObj
           [(js ''error'', JStr (js ''Audio file too large. Maximum size is 25MB.'')),
            (js ''fileSize'',
             JStr (int_to_string (Math_round (of_nat (length audio) / (1024 * 1024)))
                   @ js ''MB''))]))), [])
      else transcribe w key audio)"
proof -
  from assms obtain ct b where
    k: "OPENAI_API_KEY w = Some key" "key \<noteq> []" "\<not> is_test_request w ev" and
    ct: "contentType ev = Some ct" "str_includes ct (js ''multipart/form-data'')" and
    b: "req_body ev = Some b" "base64_decode w b = audio"
    by (auto simp: valid_upload_def split: option.splits)
  from ct(2) have "ct \<noteq> []" by auto
  with k ct b show ?thesis
    by (simp add: try_block_def Buffer_from_def)
qed

lemma handler_success:
  assumes "successful_transcription w ev key audio tr"
  shows "handler w ev =
     (case after_transcription w tr of
        (Inr r, calls) \<Rightarrow> (r, Whisper key audio # calls)
      | (Inl error, calls) \<Rightarrow> (internal_error w error, Whisper key audio # calls))"
proof -
  from assms obtain r where
    v: "valid_upload w ev key audio" and len: "\<not> length audio > max_size" and
    r: "fetch_transcriptions w key audio = FetchResponse r" "ok r" "json_of r = Inr tr"
    by (auto simp: successful_transcription_def max_size_def split: fetch_outcome.splits)
  from v have post: "httpMethod ev = js ''POST''"
    by (simp add: valid_upload_def)
  have "try_block w ev = transcribe w key audio"
    using try_block_upload [OF v] len by simp
  also have "\<dots> = (let (x, calls) = after_transcription w tr in (x, Whisper key audio # calls))"
    using r by (simp add: transcribe_def)
  finally show ?thesis
    by (simp add: handler_POST [OF post] split: prod.splits sum.splits)
qed

lemma trim_Nil [simp]: "trim [] = []"
  by (simp add: trim_def)

lemma after_transcription_string:
  assumes "map_of props (js ''text'') = Some (JStr s)"
  shows "after_transcription w (JObj props) =
     (let T = (if list_ex is_bengali s \<or> trim s = [] then (None, [])
               else translateToBengali w s)
      in (Inr (success_response w (JStr s) (case fst T of None \<Rightarrow> JStr s | Some v \<Rightarrow> v)
                 (map_of props (js ''language'')) (map_of props (js ''duration''))),
          snd T))"
  using assms
  by (auto simp: after_transcription_def or_else_def text_to_translate_def Let_def
      split: prod.splits)

lemma after_transcription_shape:
  assumes "after_transcription w tr = (Inr r, calls)"
  shows "headers r = cors_headers \<and> (\<exists>props. body r = JSON_stringify (JObj props))"
  using assms
  by (auto simp: after_transcription_def success_response_def respond_def Let_def
      split: sum.splits prod.splits)

lemma transcribe_shape:
  assumes "transcribe w key audio = (Inr r, calls)"
  shows "headers r = cors_headers \<and> (\<exists>props. body r = JSON_stringify (JObj props))"
  using assms after_transcription_shape
  by (auto simp: transcribe_def upstream_error_response_def respond_def Let_def
      split: fetch_outcome.splits if_splits sum.splits prod.splits)

lemma try_block_shape:
  assumes "try_block w ev = (Inr r, calls)"
  shows "headers r = cors_headers \<and> (\<exists>props. body r = JSON_stringify (JObj props))"
  using assms transcribe_shape
  by (auto simp: try_block_def respond_def Let_def
      split: option.splits if_splits sum.splits)

lemma after_transcription_fields:
  assumes "after_transcription w tr = (Inr r, calls)"
  shows "\<exists>props. body r = JSON_stringify (JObj props) \<and>
     map_of props (js ''success'') = Some (JBool True)"
  using assms
  by (auto simp: after_transcription_def success_response_def respond_def Let_def
      split: sum.splits prod.splits)

lemma transcribe_fields:
  assumes "transcribe w key audio = (Inr r, calls)"
  shows "\<exists>props. body r = JSON_stringify (JObj props) \<and>
     (map_of props (js ''error'') \<noteq> None \<or> map_of props (js ''success'') = Some (JBool True))"
  using assms
  by (auto simp: transcribe_def upstream_error_response_def respond_def Let_def
      split: fetch_outcome.splits if_splits sum.splits prod.splits
      dest!: after_transcription_fields)

lemma try_block_fields:
  assumes "try_block w ev = (Inr r, calls)"
  shows "\<exists>props. body r = JSON_stringify (JObj props) \<and>
     (map_of props (js ''error'') \<noteq> None \<or> map_of props (js ''success'') = Some (JBool True))"
  using assms
  by (auto simp: try_block_def respond_def Let_def
      split: option.splits if_splits sum.splits
      dest!: transcribe_fields)

lemma transcribe_calls:
  "\<exists>rest. snd (transcribe w key audio) = Whisper key audio # rest"
  by (auto simp: transcribe_def split: fetch_outcome.splits sum.splits prod.splits)

lemma upload_event_valid:
  "valid_upload (example_world (Some sk_test) audio transcription translation) upload_event sk_test audio"
  by (simp add: valid_upload_def example_world_def upload_event_def sk_test_def
      is_test_request_def contentType_def probe_text_def js_def)

lemma Math_round_1048576:
  "Math_round (of_nat n / 1048576) = int ((n + 524288) div 1048576)"
  using Math_round_MiB [of n] by simp

lemma nearest_MiB:
  "\<bar>of_nat n / (1024 * 1024) - of_nat ((n + 524288) div 1048576)\<bar> \<le> (1 / 2 :: rat)"
proof -
  define k where "k = (n + 524288) div 1048576"
  have lo: "k * 1048576 \<le> n + 524288"
    unfolding k_def by simp
  have hi: "n + 524288 < (k + 1) * 1048576"
    unfolding k_def using dividend_less_div_times [of 1048576 "n + 524288"] by simp
  have "(of_nat (k * 1048576) :: rat) \<le> of_nat (n + 524288)"
    using lo by (simp only: of_nat_le_iff)
  then have lo': "(of_nat k :: rat) * 1048576 \<le> of_nat n + 524288"
    by (simp only: of_nat_mult of_nat_add of_nat_numeral)
  have "(of_nat (n + 524288) :: rat) < of_nat ((k + 1) * 1048576)"
    using hi by (simp only: of_nat_less_iff)
  then have hi': "(of_nat n :: rat) + 524288 < (of_nat k + 1) * 1048576"
    by (simp only: of_nat_mult of_nat_add of_nat_numeral of_nat_1)
  have "\<bar>of_nat n / (1024 * 1024) - (of_nat k :: rat)\<bar> \<le> 1 / 2"
    using lo' hi' by (simp add: abs_le_iff field_simps)
  then show ?thesis by (simp only: k_def)
qed

lemma handler_success_string:
  assumes "successful_transcription w ev key audio (JObj props)"
    and "map_of props (js ''text'') = Some (JStr s)"
  shows "handler w ev =
     (let T = (if list_ex is_bengali s \<or> trim s = [] then (None, [])
               else translateToBengali w s)
      in (success_response w (JStr s) (case fst T of None \<Rightarrow> JStr s | Some v \<Rightarrow> v)
            (map_of props (js ''language'')) (map_of props (js ''duration'')),
          Whisper key audio # snd T))"
  by (simp add: handler_success [OF assms(1)] after_transcription_string [OF assms(2)] Let_def)

lemma serialise_finite: "finite_json v \<Longrightarrow> serialise v = v"
proof (induction v rule: serialise.induct)
  case (3 xs)
  then have "map serialise xs = xs"
    by (intro map_idI) (simp add: list_all_iff)
  then show ?case by simp
next
  case (4 kv)
  have "map_prod id serialise p = p" if "p \<in> set kv" for p
  proof (cases p)
    case (Pair k x)
    with that 4 show ?thesis
      by (auto simp: list_all_iff)
  qed
  then have "map (map_prod id serialise) kv = kv"
    by (intro map_idI)
  then show ?case by simp
qed simp_all

lemma success_response_fields:
  "statusCode (success_response w original bengali language duration) = 200"
  "body_field (success_response w original bengali language duration) ''original'' =
     Some (serialise original)"
  "body_field (success_response w original bengali language duration) ''bengali'' =
     Some (serialise bengali)"
  "body_field (success_response w original bengali language duration) ''language_detected'' =
     Some (serialise (or_else language (JStr (js ''unknown''))))"
  "body_field (success_response w original bengali language duration) ''duration'' =
     Some (serialise (or_else duration JNull))"
  "body_field (success_response w original bengali language duration) ''error'' = None"
  by (simp_all add: success_response_def respond_def body_field_def JSON_stringify_def)

lemma after_transcription_reported:
  assumes "after_transcription w tr = (Inr r, calls)"
  shows "statusCode r = 200"
    and "body_field r ''duration'' =
       Some (case get_prop tr (js ''duration'') of
               Inr (Some d) \<Rightarrow> if truthy d then serialise d else JNull
             | _ \<Rightarrow> JNull)"
    and "body_field r ''language_detected'' =
       Some (case get_prop tr (js ''language'') of
               Inr (Some l) \<Rightarrow> if truthy l then serialise l else JStr (js ''unknown'')
             | _ \<Rightarrow> JStr (js ''unknown''))"
  using assms
  by (auto simp: after_transcription_def Let_def success_response_fields or_else_def
      split: sum.splits prod.splits option.splits)

lemma list_ex_is_bengali:
  "list_ex is_bengali s \<longleftrightarrow> (\<exists>c \<in> set s. 0x0980 \<le> c \<and> c \<le> 0x09FF)"
  by (simp add: list_ex_iff is_bengali_def)

lemma translateToBengali_fails:
  assumes "case fetch_translate w s of
             FetchThrows e \<Rightarrow> True
           | FetchResponse r \<Rightarrow>
               \<not> (200 \<le> status r \<and> status r < 300) \<or>
               (case json_of r of
                  Inl e \<Rightarrow> True
                | Inr data \<Rightarrow>
                    (case first_segment data of None \<Rightarrow> True | Some v \<Rightarrow> \<not> truthy v))"
  shows "fst (translateToBengali w s) = None"
  using assms
  by (auto simp: translateToBengali_def ok_def
      split: fetch_outcome.splits sum.splits option.splits)

lemma upload_event_success:
  "successful_transcription
     (example_world (Some sk_test) example_audio (json_reply 200 tr) translation)
     upload_event sk_test example_audio tr"
  using upload_event_valid [of example_audio "json_reply 200 tr" translation]
  by (simp add: successful_transcription_def example_world_def json_reply_def ok_def
      example_audio_def)

lemma hello_text_facts:
  "\<not> (\<exists>c \<in> set hello_text. 0x0980 \<le> c \<and> c \<le> 0x09FF)"
  "trim hello_text \<noteq> []"
  "\<not> encodeURIComponent_throws hello_text"
  "\<not> list_ex is_bengali hello_text"
  by (simp_all add: hello_text_def js_def trim_def is_whitespace_def is_bengali_def
      is_low_surrogate_def is_high_surrogate_def)

text \<open>
  The translation failures that the helper detects: the call is rejected, or answers
  with a non-success status, a body that is not JSON, or JSON in which
  \<open>data && data[0] && data[0][0] && data[0][0][0]\<close> is undefined or falsy. Then the
  response is the success response with \<open>bengali\<close> equal to \<open>original\<close>.
\<close>

lemma detected_translation_failure_falls_back:
  assumes "successful_transcription w ev key audio (JObj props)"
    and "map_of props (js ''text'') = Some (JStr s)"
    and "\<not> (\<exists>c \<in> set s. 0x0980 \<le> c \<and> c \<le> 0x09FF)" and "trim s \<noteq> []"
    and "case fetch_translate w s of
           FetchThrows e \<Rightarrow> True
         | FetchResponse r \<Rightarrow>
             \<not> (200 \<le> status r \<and> status r < 300) \<or>
             (case json_of r of
                Inl e \<Rightarrow> True
              | Inr data \<Rightarrow>
                  (case first_segment data of None \<Rightarrow> True | Some v \<Rightarrow> \<not> truthy v))"
  shows "statusCode (fst (handler w ev)) = 200 \<and>
     body_field (fst (handler w ev)) ''original'' = Some (JStr s) \<and>
     body_field (fst (handler w ev)) ''bengali'' = Some (JStr s) \<and>
     body_field (fst (handler w ev)) ''error'' = None"
proof -
  from assms(3) have nb: "\<not> list_ex is_bengali s"
    by (simp add: list_ex_is_bengali)
  have none: "fst (translateToBengali w s) = None"
    by (rule translateToBengali_fails [OF assms(5)])
  have h: "handler w ev =
      (success_response w (JStr s) (JStr s)
         (map_of props (js ''language'')) (map_of props (js ''duration'')),
       Whisper key audio # snd (translateToBengali w s))"
    using nb assms(4) none by (simp add: handler_success_string [OF assms(1,2)])
  show ?thesis
    by (simp add: h success_response_fields)
qed

text \<open>A reply that is a JSON object, not a nested array, is such a failure.\<close>

lemma object_reply_falls_back:
  "statusCode (fst (handler (example_world (Some sk_test) example_audio
       (json_reply 200 (JObj [(js ''text'', JStr hello_text)]))
       (json_reply 200 (JObj [(js ''error'', JStr (js ''quota exceeded''))])))
     upload_event)) = 200 \<and>
   body_field (fst (handler (example_world (Some sk_test) example_audio
       (json_reply 200 (JObj [(js ''text'', JStr hello_text)]))
       (json_reply 200 (JObj [(js ''error'', JStr (js ''quota exceeded''))])))
     upload_event)) ''bengali'' = Some (JStr hello_text) \<and>
   body_field (fst (handler (example_world (Some sk_test) example_audio
       (json_reply 200 (JObj [(js ''text'', JStr hello_text)]))
       (json_reply 200 (JObj [(js ''error'', JStr (js ''quota exceeded''))])))
     upload_event)) ''error'' = None"
proof -
  let ?w = "example_world (Some sk_test) example_audio
       (json_reply 200 (JObj [(js ''text'', JStr hello_text)]))
       (json_reply 200 (JObj [(js ''error'', JStr (js ''quota exceeded''))]))"
  have t: "map_of [(js ''text'', JStr hello_text)] (js ''text'') = Some (JStr hello_text)"
    by simp
  have f: "case fetch_translate ?w hello_text of
           FetchThrows e \<Rightarrow> True
         | FetchResponse r \<Rightarrow>
             \<not> (200 \<le> status r \<and> status r < 300) \<or>
             (case json_of r of
                Inl e \<Rightarrow> True
              | Inr data \<Rightarrow>
                  (case first_segment data of None \<Rightarrow> True | Some v \<Rightarrow> \<not> truthy v))"
    by (simp add: example_world_def json_reply_def first_segment_def and_index0_def)
  show ?thesis
    using detected_translation_failure_falls_back
      [OF upload_event_success t hello_text_facts(1) hello_text_facts(2) f]
    by simp
qed

section \<open>The claims\<close>

text \<open>
  C9. Every response of the handler, on every path (the \<open>OPTIONS\<close> preflight, the 405,
  every validation and error response, a propagated upstream error, success), carries the
  four headers \<open>Access-Control-Allow-Origin: *\<close>,
  \<open>Access-Control-Allow-Headers: Content-Type, Authorization\<close>,
  \<open>Access-Control-Allow-Methods: POST, OPTIONS\<close> and \<open>Content-Type: application/json\<close>.
\<close>

theorem every_response_has_cors_headers:
  "headers (fst (handler w ev)) =
     [(js ''Access-Control-Allow-Origin'', js ''*''),
      (js ''Access-Control-Allow-Headers'', js ''Content-Type, Authorization''),
      (js ''Access-Control-Allow-Methods'', js ''POST, OPTIONS''),
      (js ''Content-Type'', js ''application/json'')]"
proof -
  have "headers (fst (handler w ev)) = cors_headers"
  proof (cases "httpMethod ev = js ''POST''")
    case False
    then show ?thesis by (simp add: handler_def respond_def)
  next
    case True
    show ?thesis
    proof (cases "try_block w ev")
      case (Pair x calls)
      then show ?thesis
        using try_block_shape [of w ev _ calls]
        by (cases x) (simp_all add: handler_POST [OF True] internal_error_def)
    qed
  qed
  then show ?thesis by (simp add: cors_headers_def)
qed

text \<open>
  C6. A \<open>POST\<close> request, whatever its body, when the credential is absent from the
  environment (undefined or empty), gets status 500 with \<open>error\<close>, \<open>setup\<close> and
  \<open>help\<close>, and no external call is made. The body is not looked at: the statement
  holds for every event and every \<open>JSON.parse\<close>, so also for the probe body.
\<close>

theorem missing_credential:
  assumes "httpMethod ev = js ''POST''"
    and "OPENAI_API_KEY w = None \<or> OPENAI_API_KEY w = Some []"
  shows "handler w ev =
     (\<lparr>statusCode = 500, headers = cors_headers,
       body = JSON_stringify (JObj
         [(js ''error'', JStr (js ''OpenAI API key not configured'')),
          (js ''setup'', JStr (js ''Add OPENAI_API_KEY to Netlify environment variables'')),
          (js ''help'',
           JStr (js ''Go to Site Settings > Environment Variables in Netlify dashboard''))])\<rparr>,
      [])"
  using assms(2)
  by (auto simp: handler_POST [OF assms(1)] try_block_def respond_def)

text \<open>The probe request in a world without the credential gets the 500.\<close>

theorem missing_credential_witness:
  "httpMethod probe_event = js ''POST'' \<and>
   OPENAI_API_KEY (example_world None [] (json_reply 200 JNull) (json_reply 200 JNull)) = None \<and>
   req_body probe_event = Some probe_text \<and>
   JSON_parse (example_world None [] (json_reply 200 JNull) (json_reply 200 JNull)) probe_text
     = Some (JObj [(js ''test'', JBool True)]) \<and>
   statusCode (fst (handler (example_world None [] (json_reply 200 JNull) (json_reply 200 JNull))
     probe_event)) = 500 \<and>
   snd (handler (example_world None [] (json_reply 200 JNull) (json_reply 200 JNull))
     probe_event) = []"
proof -
  have m: "httpMethod probe_event = js ''POST''"
    by (simp add: probe_event_def)
  have k: "OPENAI_API_KEY (example_world None [] (json_reply 200 JNull) (json_reply 200 JNull))
      = None"
    by (simp add: example_world_def)
  show ?thesis
    using missing_credential [OF m disjI1 [OF k]] m k
    by (simp add: probe_event_def example_world_def)
qed

text \<open>
  C7. A \<open>POST\<close> request with a configured credential whose body parses as JSON with
  \<open>test === true\<close> gets status 200 with \<open>success: true\<close>, a message, the timestamp
  and \<open>apiKeyPresent: true\<close>; no external call is made, and neither the headers of the
  request nor the decoded size play a part.
\<close>

theorem test_probe:
  assumes "httpMethod ev = js ''POST''"
    and "OPENAI_API_KEY w = Some key" and "key \<noteq> []"
    and "req_body ev = Some b" and "b \<noteq> []"
    and "JSON_parse w b = Some bodyData"
    and "get_prop bodyData (js ''test'') = Inr (Some (JBool True))"
  shows "handler w ev =
     (\<lparr>statusCode = 200, headers = cors_headers,
       body = JSON_stringify (JObj
         [(js ''success'', JBool True),
          (js ''message'', JStr (js ''API connected successfully'')),
          (js ''timestamp'', num (Date_now w)),
          (js ''apiKeyPresent'', JBool True)])\<rparr>,
      [])"
proof -
  have "is_test_request w ev"
    using assms(4-7) by (simp add: is_test_request_def)
  then show ?thesis
    using assms(2,3) by (simp add: handler_POST [OF assms(1)] try_block_def respond_def)
qed

text \<open>The probe request with a credential.\<close>

theorem test_probe_witness:
  "handler (example_world (Some sk_test) [] (json_reply 200 JNull) (json_reply 200 JNull))
     probe_event =
     (\<lparr>statusCode = 200, headers = cors_headers,
       body = JSON_stringify (JObj
         [(js ''success'', JBool True),
          (js ''message'', JStr (js ''API connected successfully'')),
          (js ''timestamp'', num 1700000000000),
          (js ''apiKeyPresent'', JBool True)])\<rparr>,
      [])"
proof -
  let ?w = "example_world (Some sk_test) [] (json_reply 200 JNull) (json_reply 200 JNull)"
  have 1: "httpMethod probe_event = js ''POST''"
    by (simp add: probe_event_def)
  have 2: "OPENAI_API_KEY ?w = Some sk_test"
    by (simp add: example_world_def)
  have 3: "sk_test \<noteq> []"
    by (simp add: sk_test_def)
  have 4: "req_body probe_event = Some probe_text"
    by (simp add: probe_event_def)
  have 5: "probe_text \<noteq> []"
    by (simp add: probe_text_def)
  have 6: "JSON_parse ?w probe_text = Some (JObj [(js ''test'', JBool True)])"
    by (simp add: example_world_def)
  have 7: "get_prop (JObj [(js ''test'', JBool True)]) (js ''test'') = Inr (Some (JBool True))"
    by simp
  show ?thesis
    using test_probe [OF 1 2 3 4 5 6 7] by (simp add: example_world_def)
qed

text \<open>
  C3. When the transcription service answers with a non-success status and its body is
  read, the response has that status, an \<open>error\<close> message chosen by it (401, 429, 413,
  else the generic one), the raw upstream body under \<open>details\<close> and the status under
  \<open>status\<close>.
\<close>

theorem upstream_error:
  assumes "valid_upload w ev key audio" and "length audio \<le> 25 * 1024 * 1024"
    and "fetch_transcriptions w key audio = FetchResponse r"
    and "\<not> (200 \<le> status r \<and> status r < 300)"
    and "text_of r = Inr errorText"
  shows "statusCode (fst (handler w ev)) = status r \<and>
     body_field (fst (handler w ev)) ''error'' =
       Some (JStr (if status r = 401 then js ''Invalid OpenAI API key. Please check your key.''
                   else if status r = 429
                     then js ''OpenAI API rate limit exceeded. Please try again later.''
                   else if status r = 413 then js ''Audio file too large for OpenAI API.''
                   else js ''OpenAI API request failed'')) \<and>
     body_field (fst (handler w ev)) ''details'' = Some (JStr errorText) \<and>
     body_field (fst (handler w ev)) ''status'' = Some (JNum (Num (of_nat (status r)))) \<and>
     snd (handler w ev) = [Whisper key audio]"
proof -
  from assms(1) have post: "httpMethod ev = js ''POST''"
    by (simp add: valid_upload_def)
  have "try_block w ev = transcribe w key audio"
    using try_block_upload [OF assms(1)] assms(2) by (simp add: max_size_def)
  also have "\<dots> = (Inr (upstream_error_response (status r) errorText), [Whisper key audio])"
    using assms(3-5) by (simp add: transcribe_def ok_def)
  finally have "handler w ev =
      (upstream_error_response (status r) errorText, [Whisper key audio])"
    by (simp add: handler_POST [OF post])
  then show ?thesis
    by (simp add: upstream_error_response_def respond_def body_field_def num_def
        JSON_stringify_def)
qed

text \<open>An upstream 401.\<close>

theorem upstream_error_witness:
  "statusCode (fst (handler (example_world (Some sk_test) [0x1A, 0x45, 0xDF, 0xA3]
       (text_reply 401 (js ''Incorrect API key provided'')) (json_reply 200 JNull))
       upload_event)) = 401 \<and>
   body_field (fst (handler (example_world (Some sk_test) [0x1A, 0x45, 0xDF, 0xA3]
       (text_reply 401 (js ''Incorrect API key provided'')) (json_reply 200 JNull))
       upload_event)) ''error'' =
     Some (JStr (js ''Invalid OpenAI API key. Please check your key.'')) \<and>
   body_field (fst (handler (example_world (Some sk_test) [0x1A, 0x45, 0xDF, 0xA3]
       (text_reply 401 (js ''Incorrect API key provided'')) (json_reply 200 JNull))
       upload_event)) ''details'' = Some (JStr (js ''Incorrect API key provided''))"
proof -
  let ?w = "example_world (Some sk_test) [0x1A, 0x45, 0xDF, 0xA3]
       (text_reply 401 (js ''Incorrect API key provided'')) (json_reply 200 JNull)"
  let ?r = "\<lparr>status = 401, text_of = Inr (js ''Incorrect API key provided''),
       json_of = Inl (Error (js ''invalid json response body''))\<rparr>"
  have 1: "valid_upload ?w upload_event sk_test [0x1A, 0x45, 0xDF, 0xA3]"
    by (rule upload_event_valid)
  have 2: "length [0x1A, 0x45, 0xDF, 0xA3 :: 8 word] \<le> 25 * 1024 * 1024"
    by simp
  have 3: "fetch_transcriptions ?w sk_test [0x1A, 0x45, 0xDF, 0xA3] = FetchResponse ?r"
    by (simp add: example_world_def text_reply_def)
  have 4: "\<not> (200 \<le> status ?r \<and> status ?r < 300)"
    by simp
  have 5: "text_of ?r = Inr (js ''Incorrect API key provided'')"
    by simp
  show ?thesis
    using upstream_error [OF 1 2 3 4 5] by simp
qed

text \<open>
  C4. Whatever exception leaves the body of the outer \<open>try\<close>, the handler returns
  status 500 with \<open>error\<close>, \<open>message\<close> equal to the exception's message, and
  \<open>timestamp\<close>. And every request gets a response: the empty body of the preflight,
  or a JSON object with an \<open>error\<close> field or \<open>success: true\<close>.
\<close>

theorem top_level_catch:
  "(httpMethod ev = js ''POST'' \<and> try_block w ev = (Inl e, calls) \<longrightarrow>
      handler w ev =
        (\<lparr>statusCode = 500, headers = cors_headers,
          body = JSON_stringify (JObj
            [(js ''error'', JStr (js ''Internal server error during transcription'')),
             (js ''message'', JStr (message e)),
             (js ''timestamp'', num (Date_now w))])\<rparr>,
         calls)) \<and>
   (httpMethod ev = js ''OPTIONS'' \<and> body (fst (handler w ev)) = Text [] \<or>
    (\<exists>props. body (fst (handler w ev)) = JSON_stringify (JObj props) \<and>
       (map_of props (js ''error'') \<noteq> None \<or> map_of props (js ''success'') = Some (JBool True))))"
proof -
  have a: "handler w ev = (internal_error w e, calls)"
    if "httpMethod ev = js ''POST''" "try_block w ev = (Inl e, calls)"
    using that by (simp add: handler_POST)
  have b: "httpMethod ev = js ''OPTIONS'' \<and> body (fst (handler w ev)) = Text [] \<or>
    (\<exists>props. body (fst (handler w ev)) = JSON_stringify (JObj props) \<and>
       (map_of props (js ''error'') \<noteq> None \<or> map_of props (js ''success'') = Some (JBool True)))"
  proof (cases "httpMethod ev = js ''POST''")
    case False
    then show ?thesis by (auto simp: handler_def respond_def)
  next
    case True
    show ?thesis
    proof (cases "try_block w ev")
      case (Pair x cs)
      show ?thesis
      proof (cases x)
        case (Inl err)
        with Pair show ?thesis
          by (auto simp: handler_POST [OF True] internal_error_def)
      next
        case (Inr r)
        with Pair try_block_fields [of w ev r cs] show ?thesis
          by (simp add: handler_POST [OF True])
      qed
    qed
  qed
  from a b show ?thesis by (simp add: internal_error_def)
qed

text \<open>The transcription call is rejected (a network failure).\<close>

theorem top_level_catch_witness:
  "handler (example_world (Some sk_test) [0x1A, 0x45, 0xDF, 0xA3]
       (FetchThrows (Error (js ''request to https://api.openai.com/v1/audio/transcriptions failed'')))
       (json_reply 200 JNull)) upload_event =
     (\<lparr>statusCode = 500, headers = cors_headers,
       body = JSON_stringify (JObj
         [(js ''error'', JStr (js ''Internal server error during transcription'')),
          (js ''message'',
           JStr (js ''request to https://api.openai.com/v1/audio/transcriptions failed'')),
          (js ''timestamp'', num 1700000000000)])\<rparr>,
      [Whisper sk_test [0x1A, 0x45, 0xDF, 0xA3]])"
proof -
  let ?e = "Error (js ''request to https://api.openai.com/v1/audio/transcriptions failed'')"
  let ?w = "example_world (Some sk_test) [0x1A, 0x45, 0xDF, 0xA3] (FetchThrows ?e)
       (json_reply 200 JNull)"
  have post: "httpMethod upload_event = js ''POST''"
    by (simp add: upload_event_def)
  have "try_block ?w upload_event = transcribe ?w sk_test [0x1A, 0x45, 0xDF, 0xA3]"
    using try_block_upload [OF upload_event_valid, of "[0x1A, 0x45, 0xDF, 0xA3]"]
    by (simp add: max_size_def)
  then have thrown: "try_block ?w upload_event = (Inl ?e, [Whisper sk_test [0x1A, 0x45, 0xDF, 0xA3]])"
    by (simp add: transcribe_def example_world_def)
  show ?thesis
    using top_level_catch [of upload_event ?w ?e "[Whisper sk_test [0x1A, 0x45, 0xDF, 0xA3]]"]
      post thrown
    by (simp add: example_world_def)
qed

text \<open>
  C5. An upload that decodes to more than \<open>25 * 1024 * 1024\<close> bytes gets status 400
  with \<open>fileSize\<close> the decimal text of the byte length divided by \<open>1024 * 1024\<close>,
  rounded to the nearest integer, followed by \<open>MB\<close>, and no external call is made; at
  exactly 25 MiB the transcription service is called.
\<close>

theorem payload_too_large:
  assumes "valid_upload w ev key audio"
  shows "(length audio > 25 * 1024 * 1024 \<longrightarrow>
       handler w ev =
         (\<lparr>statusCode = 400, headers = cors_headers,
           body = JSON_stringify (JObj
             [(js ''error'', JStr (js ''Audio file too large. Maximum size is 25MB.'')),
              (js ''fileSize'',
               JStr (decimal ((length audio + 524288) div 1048576) @ js ''MB''))])\<rparr>,
          []) \<and>
       \<bar>of_nat (length audio) / (1024 * 1024)
          - of_nat ((length audio + 524288) div 1048576)\<bar> \<le> (1 / 2 :: rat)) \<and>
     (length audio = 25 * 1024 * 1024 \<longrightarrow>
       (\<exists>rest. snd (handler w ev) = Whisper key audio # rest))"
proof -
  from assms have post: "httpMethod ev = js ''POST''"
    by (simp add: valid_upload_def)
  have big: "handler w ev =
         (\<lparr>statusCode = 400, headers = cors_headers,
           body = JSON_stringify (JObj
             [(js ''error'', JStr (js ''Audio file too large. Maximum size is 25MB.'')),
              (js ''fileSize'',
               JStr (decimal ((length audio + 524288) div 1048576) @ js ''MB''))])\<rparr>,
          [])" if "length audio > 25 * 1024 * 1024"
    using that try_block_upload [OF assms]
    by (simp add: handler_POST [OF post] max_size_def respond_def Math_round_1048576
        int_to_string_def)
  have edge: "\<exists>rest. snd (handler w ev) = Whisper key audio # rest"
    if "length audio = 25 * 1024 * 1024"
  proof -
    have t: "try_block w ev = transcribe w key audio"
      using that try_block_upload [OF assms] by (simp add: max_size_def)
    obtain rest where "snd (transcribe w key audio) = Whisper key audio # rest"
      using transcribe_calls by blast
    with t show ?thesis
      by (cases "transcribe w key audio")
        (auto simp: handler_POST [OF post] split: sum.splits)
  qed
  from big edge nearest_MiB [of "length audio"] show ?thesis by blast
qed

text \<open>A body of 26 MiB reports \<open>26MB\<close>; a body of exactly 25 MiB goes on.\<close>

theorem payload_too_large_witness:
  "handler (example_world (Some sk_test) (replicate 27262976 0)
       (json_reply 200 JNull) (json_reply 200 JNull)) upload_event =
     (\<lparr>statusCode = 400, headers = cors_headers,
       body = JSON_stringify (JObj
         [(js ''error'', JStr (js ''Audio file too large. Maximum size is 25MB.'')),
          (js ''fileSize'', JStr (js ''26MB''))])\<rparr>,
      []) \<and>
   (length (replicate 26214400 (0 :: 8 word)) = 25 * 1024 * 1024 \<and>
    (\<exists>rest. snd (handler (example_world (Some sk_test) (replicate 26214400 0)
       (json_reply 200 JNull) (json_reply 200 JNull)) upload_event) =
       Whisper sk_test (replicate 26214400 0) # rest))"
proof -
  have d: "decimal 26 = js ''26''"
    by (simp add: decimal.simps js_def)
  have a: "handler (example_world (Some sk_test) (replicate 27262976 0)
       (json_reply 200 JNull) (json_reply 200 JNull)) upload_event =
     (\<lparr>statusCode = 400, headers = cors_headers,
       body = JSON_stringify (JObj
         [(js ''error'', JStr (js ''Audio file too large. Maximum size is 25MB.'')),
          (js ''fileSize'', JStr (js ''26MB''))])\<rparr>,
      [])"
    using payload_too_large [OF upload_event_valid, of "replicate 27262976 0"] d
    by (simp add: js_def)
  have b: "\<exists>rest. snd (handler (example_world (Some sk_test) (replicate 26214400 0)
       (json_reply 200 JNull) (json_reply 200 JNull)) upload_event) =
       Whisper sk_test (replicate 26214400 0) # rest"
    using payload_too_large [OF upload_event_valid, of "replicate 26214400 0"]
    by simp
  from a b show ?thesis by simp
qed

text \<open>
  C1. After a successful transcription whose text has at least one code unit in U+0980
  to U+09FF, the only external call is the transcription call (the translation service
  is not called), and \<open>bengali\<close> equals \<open>original\<close>, the transcribed text. One such
  code unit anywhere in the text is enough.
\<close>

theorem bengali_text_skips_translation:
  assumes "successful_transcription w ev key audio (JObj props)"
    and "map_of props (js ''text'') = Some (JStr s)"
    and "\<exists>c \<in> set s. 0x0980 \<le> c \<and> c \<le> 0x09FF"
  shows "snd (handler w ev) = [Whisper key audio] \<and>
     statusCode (fst (handler w ev)) = 200 \<and>
     body_field (fst (handler w ev)) ''original'' = Some (JStr s) \<and>
     body_field (fst (handler w ev)) ''bengali'' = Some (JStr s)"
proof -
  from assms(3) have "list_ex is_bengali s"
    by (simp add: list_ex_is_bengali)
  then show ?thesis
    by (simp add: handler_success_string [OF assms(1,2)] success_response_fields)
qed

text \<open>Eleven ASCII characters and one Bengali word: no translation.\<close>

theorem bengali_text_skips_translation_witness:
  "snd (handler (example_world (Some sk_test) example_audio
       (json_reply 200 (JObj [(js ''text'', JStr mixed_text)]))
       (json_reply 200 (JArr [JArr [JArr [JStr [0x09A6]]]])))
     upload_event) = [Whisper sk_test example_audio] \<and>
   body_field (fst (handler (example_world (Some sk_test) example_audio
       (json_reply 200 (JObj [(js ''text'', JStr mixed_text)]))
       (json_reply 200 (JArr [JArr [JArr [JStr [0x09A6]]]])))
     upload_event)) ''bengali'' = Some (JStr mixed_text) \<and>
   body_field (fst (handler (example_world (Some sk_test) example_audio
       (json_reply 200 (JObj [(js ''text'', JStr mixed_text)]))
       (json_reply 200 (JArr [JArr [JArr [JStr [0x09A6]]]])))
     upload_event)) ''original'' = Some (JStr mixed_text)"
proof -
  have t: "map_of [(js ''text'', JStr mixed_text)] (js ''text'') = Some (JStr mixed_text)"
    by simp
  have b: "\<exists>c \<in> set mixed_text. 0x0980 \<le> c \<and> c \<le> 0x09FF"
    by (simp add: mixed_text_def)
  show ?thesis
    using bengali_text_skips_translation [OF upload_event_success t b] by simp
qed

text \<open>
  C2. When the translation step fails, the handler is to return status 200 with
  \<open>bengali\<close> equal to \<open>original\<close>. The helper checks the reply's shape with
  \<open>data && data[0] && data[0][0] && data[0][0][0]\<close> and warns of an unexpected format
  otherwise; a reply whose JSON body is the string \<open>"error"\<close> passes this check, since
  indexing a string gives its first character. At that input the translation service
  is called, the reply is no nested array, and \<open>bengali\<close> is \<open>"e"\<close>, not the
  transcribed text.
\<close>

theorem translation_string_reply_bug:
  "successful_transcription
     (example_world (Some sk_test) example_audio
        (json_reply 200 (JObj [(js ''text'', JStr hello_text)]))
        (json_reply 200 (JStr (js ''error''))))
     upload_event sk_test example_audio (JObj [(js ''text'', JStr hello_text)]) \<and>
   \<not> spec_expected_shape (JStr (js ''error'')) \<and>
   snd (handler (example_world (Some sk_test) example_audio
        (json_reply 200 (JObj [(js ''text'', JStr hello_text)]))
        (json_reply 200 (JStr (js ''error''))))
     upload_event) = [Whisper sk_test example_audio, Translate hello_text] \<and>
   body_field (fst (handler (example_world (Some sk_test) example_audio
        (json_reply 200 (JObj [(js ''text'', JStr hello_text)]))
        (json_reply 200 (JStr (js ''error''))))
     upload_event)) ''original'' = Some (JStr hello_text) \<and>
   body_field (fst (handler (example_world (Some sk_test) example_audio
        (json_reply 200 (JObj [(js ''text'', JStr hello_text)]))
        (json_reply 200 (JStr (js ''error''))))
     upload_event)) ''bengali'' = Some (JStr (js ''e'')) \<and>
   JStr (js ''e'') \<noteq> JStr hello_text"
proof -
  let ?w = "example_world (Some sk_test) example_audio
        (json_reply 200 (JObj [(js ''text'', JStr hello_text)]))
        (json_reply 200 (JStr (js ''error'')))"
  have t: "map_of [(js ''text'', JStr hello_text)] (js ''text'') = Some (JStr hello_text)"
    by simp
  have seg: "first_segment (JStr (js ''error'')) = Some (JStr (js ''e''))"
    by (simp add: first_segment_def and_index0_def js_def)
  have tr: "translateToBengali ?w hello_text = (Some (JStr (js ''e'')), [Translate hello_text])"
    using hello_text_facts(3) seg
    by (simp add: translateToBengali_def example_world_def json_reply_def ok_def)
  have h: "handler ?w upload_event =
      (success_response ?w (JStr hello_text) (JStr (js ''e'')) None None,
       [Whisper sk_test example_audio, Translate hello_text])"
    using hello_text_facts(2,4) tr
    by (simp add: handler_success_string [OF upload_event_success t])
  have ne: "JStr (js ''e'') \<noteq> JStr hello_text"
    by (simp add: hello_text_def)
  from h ne upload_event_success show ?thesis
    by (simp add: success_response_fields)
qed

text \<open>
  C8, as amended. After a successful transcription, when the handler returns the
  success response, its \<open>duration\<close> is the duration the service reports when that
  value is truthy, as \<open>JSON.stringify\<close> writes it (unchanged, except that a number
  beyond the range of a double, which is parsed as \<open>Infinity\<close>, is written \<open>null\<close>),
  and \<open>null\<close> when the service reports none or a falsy one; \<open>language_detected\<close> is
  the reported language in the same way, and \<open>"unknown"\<close> when there is none or it is
  falsy.
\<close>

theorem duration_and_language:
  assumes "successful_transcription w ev key audio tr"
    and "statusCode (fst (handler w ev)) = 200"
  shows "body_field (fst (handler w ev)) ''duration'' =
       Some (case get_prop tr (js ''duration'') of
               Inr (Some d) \<Rightarrow> if truthy d then serialise d else JNull
             | _ \<Rightarrow> JNull) \<and>
     body_field (fst (handler w ev)) ''language_detected'' =
       Some (case get_prop tr (js ''language'') of
               Inr (Some l) \<Rightarrow> if truthy l then serialise l else JStr (js ''unknown'')
             | _ \<Rightarrow> JStr (js ''unknown'')) \<and>
     (\<forall>d. get_prop tr (js ''duration'') = Inr (Some d) \<and> truthy d \<and> finite_json d \<longrightarrow>
        body_field (fst (handler w ev)) ''duration'' = Some d) \<and>
     (\<forall>l. get_prop tr (js ''language'') = Inr (Some l) \<and> truthy l \<and> finite_json l \<longrightarrow>
        body_field (fst (handler w ev)) ''language_detected'' = Some l)"
proof (cases "after_transcription w tr")
  case (Pair x calls)
  show ?thesis
  proof (cases x)
    case (Inl e)
    with Pair assms(2) show ?thesis
      by (simp add: handler_success [OF assms(1)] internal_error_def)
  next
    case (Inr r)
    with Pair have h: "fst (handler w ev) = r"
      by (simp add: handler_success [OF assms(1)])
    from Pair Inr have a: "after_transcription w tr = (Inr r, calls)"
      by simp
    show ?thesis
      unfolding h
      using after_transcription_reported(2,3) [OF a]
      by (auto simp: serialise_finite)
  qed
qed

text \<open>
  With a language and a duration of 2.5 seconds; with neither; and with a duration
  written \<open>1e400\<close>, which is parsed as \<open>Infinity\<close>.
\<close>

theorem duration_and_language_witness:
  "body_field (fst (handler (example_world (Some sk_test) example_audio
       (json_reply 200 (JObj [(js ''text'', JStr mixed_text), (js ''language'', JStr (js ''bengali'')),
          (js ''duration'', JNum (Num (5 / 2)))]))
       (json_reply 200 JNull))
     upload_event)) ''duration'' = Some (JNum (Num (5 / 2))) \<and>
   body_field (fst (handler (example_world (Some sk_test) example_audio
       (json_reply 200 (JObj [(js ''text'', JStr mixed_text), (js ''language'', JStr (js ''bengali'')),
          (js ''duration'', JNum (Num (5 / 2)))]))
       (json_reply 200 JNull))
     upload_event)) ''language_detected'' = Some (JStr (js ''bengali'')) \<and>
   body_field (fst (handler (example_world (Some sk_test) example_audio
       (json_reply 200 (JObj [(js ''text'', JStr mixed_text)]))
       (json_reply 200 JNull))
     upload_event)) ''duration'' = Some JNull \<and>
   body_field (fst (handler (example_world (Some sk_test) example_audio
       (json_reply 200 (JObj [(js ''text'', JStr mixed_text)]))
       (json_reply 200 JNull))
     upload_event)) ''language_detected'' = Some (JStr (js ''unknown'')) \<and>
   body_field (fst (handler (example_world (Some sk_test) example_audio
       (json_reply 200 (JObj [(js ''text'', JStr mixed_text), (js ''duration'', JNum Infinity)]))
       (json_reply 200 JNull))
     upload_event)) ''duration'' = Some JNull"
proof -
  have ok: "statusCode (fst (handler (example_world (Some sk_test) example_audio
       (json_reply 200 (JObj ((js ''text'', JStr mixed_text) # more))) (json_reply 200 JNull))
     upload_event)) = 200" for more
  proof -
    have t: "map_of ((js ''text'', JStr mixed_text) # more) (js ''text'') = Some (JStr mixed_text)"
      by simp
    show ?thesis
      by (simp add: handler_success_string [OF upload_event_success t] Let_def
          success_response_fields)
  qed
  show ?thesis
    using duration_and_language [OF upload_event_success ok,
        of "[(js ''language'', JStr (js ''bengali'')), (js ''duration'', JNum (Num (5 / 2)))]"]
      duration_and_language [OF upload_event_success ok, of "[]"]
      duration_and_language [OF upload_event_success ok, of "[(js ''duration'', JNum Infinity)]"]
    by simp
qed

text \<open>
  C8 as stated fails: the service reports a duration of \<open>0\<close>, and the response has
  \<open>duration: null\<close>.
\<close>

theorem zero_duration_counterexample:
  "successful_transcription
     (example_world (Some sk_test) example_audio
        (json_reply 200 (JObj [(js ''text'', JStr mixed_text), (js ''duration'', JNum (Num 0))]))
        (json_reply 200 JNull))
     upload_event sk_test example_audio
     (JObj [(js ''text'', JStr mixed_text), (js ''duration'', JNum (Num 0))]) \<and>
   map_of [(js ''text'', JStr mixed_text), (js ''duration'', JNum (Num 0))] (js ''duration'')
     = Some (JNum (Num 0)) \<and>
   statusCode (fst (handler (example_world (Some sk_test) example_audio
        (json_reply 200 (JObj [(js ''text'', JStr mixed_text), (js ''duration'', JNum (Num 0))]))
        (json_reply 200 JNull))
     upload_event)) = 200 \<and>
   body_field (fst (handler (example_world (Some sk_test) example_audio
        (json_reply 200 (JObj [(js ''text'', JStr mixed_text), (js ''duration'', JNum (Num 0))]))
        (json_reply 200 JNull))
     upload_event)) ''duration'' = Some JNull \<and>
   JNull \<noteq> JNum (Num 0)"
proof -
  have t: "map_of [(js ''text'', JStr mixed_text), (js ''duration'', JNum (Num 0))] (js ''text'')
      = Some (JStr mixed_text)"
    by simp
  show ?thesis
    using upload_event_success
      [of "JObj [(js ''text'', JStr mixed_text), (js ''duration'', JNum (Num 0))]"
        "json_reply 200 JNull"]
    by (simp add: handler_success_string [OF upload_event_success t] Let_def
        success_response_fields or_else_def)
qed

text \<open>
  C10. When the translation service answers successfully with the nested-array shape
  and the first segment is the empty string, the helper returns \<open>null\<close> and
  \<open>bengali\<close> equals \<open>original\<close>.
\<close>

theorem empty_translation_falls_back:
  assumes "successful_transcription w ev key audio (JObj props)"
    and "map_of props (js ''text'') = Some (JStr s)"
    and "\<not> (\<exists>c \<in> set s. 0x0980 \<le> c \<and> c \<le> 0x09FF)" and "trim s \<noteq> []"
    and "fetch_translate w s = FetchResponse r"
    and "200 \<le> status r \<and> status r < 300"
    and "json_of r = Inr (JArr (JArr (JArr (JStr [] # segs) # rows) # rest))"
  shows "fst (translateToBengali w s) = None \<and>
     statusCode (fst (handler w ev)) = 200 \<and>
     body_field (fst (handler w ev)) ''original'' = Some (JStr s) \<and>
     body_field (fst (handler w ev)) ''bengali'' = Some (JStr s)"
proof -
  from assms(3) have nb: "\<not> list_ex is_bengali s"
    by (simp add: list_ex_is_bengali)
  have seg: "first_segment (JArr (JArr (JArr (JStr [] # segs) # rows) # rest)) = Some (JStr [])"
    by (simp add: first_segment_def and_index0_def)
  have none: "fst (translateToBengali w s) = None"
    using assms(5-7) seg by (simp add: translateToBengali_def ok_def)
  then show ?thesis
    using nb assms(4)
    by (simp add: handler_success_string [OF assms(1,2)] success_response_fields)
qed

text \<open>The reply \<open>[[["", "Hello world"]]]\<close>.\<close>

theorem empty_translation_falls_back_witness:
  "fst (translateToBengali (example_world (Some sk_test) example_audio
       (json_reply 200 (JObj [(js ''text'', JStr hello_text)]))
       (json_reply 200 (JArr [JArr [JArr [JStr [], JStr hello_text]]])))
     hello_text) = None \<and>
   body_field (fst (handler (example_world (Some sk_test) example_audio
       (json_reply 200 (JObj [(js ''text'', JStr hello_text)]))
       (json_reply 200 (JArr [JArr [JArr [JStr [], JStr hello_text]]])))
     upload_event)) ''bengali'' = Some (JStr hello_text)"
proof -
  let ?r = "\<lparr>status = 200, text_of = Inr [],
      json_of = Inr (JArr [JArr [JArr [JStr [], JStr hello_text]]])\<rparr>"
  let ?w = "example_world (Some sk_test) example_audio
       (json_reply 200 (JObj [(js ''text'', JStr hello_text)]))
       (json_reply 200 (JArr [JArr [JArr [JStr [], JStr hello_text]]]))"
  have t: "map_of [(js ''text'', JStr hello_text)] (js ''text'') = Some (JStr hello_text)"
    by simp
  have f: "fetch_translate ?w hello_text = FetchResponse ?r"
    by (simp add: example_world_def json_reply_def)
  have okr: "200 \<le> status ?r \<and> status ?r < 300"
    by simp
  have j: "json_of ?r = Inr (JArr (JArr (JArr (JStr [] # [JStr hello_text]) # []) # []))"
    by simp
  show ?thesis
    using empty_translation_falls_back
      [OF upload_event_success t hello_text_facts(1) hello_text_facts(2) f okr j]
    by simp
qed

end
